theory Spec2Isabelle
  imports Complex_Main "HOL-Library.Word"
begin

section \<open>JavaScript values\<close>

text \<open>
  A JavaScript string is a sequence of UTF-16 code units; \<open>length\<close>, \<open>slice\<close>,
  \<open>startsWith\<close> and \<open>trim\<close> all count and compare code units. String literals of the
  source are ASCII and are written \<open>js ''...''\<close>.
\<close>

type_synonym jschar = "16 word"
type_synonym jsstring = "jschar list"

definition js :: "string \<Rightarrow> jsstring" where
  "js s = map (\<lambda>c. of_nat (of_char c)) s"

text \<open>
  The characters matched by the regular expression class \<open>\s\<close> and removed by
  \<open>String.prototype.trim\<close>: ECMAScript WhiteSpace and LineTerminator.
\<close>

definition isWhiteSpace :: "jschar \<Rightarrow> bool" where
  "isWhiteSpace c \<longleftrightarrow>
     c \<in> {0x09, 0x0A, 0x0B, 0x0C, 0x0D, 0x20, 0xA0, 0x1680,
          0x2028, 0x2029, 0x202F, 0x205F, 0x3000, 0xFEFF}
     \<or> (0x2000 \<le> c \<and> c \<le> 0x200A)"

definition trim :: "jsstring \<Rightarrow> jsstring" where
  "trim s = rev (dropWhile isWhiteSpace (rev (dropWhile isWhiteSpace s)))"

definition startsWith :: "jsstring \<Rightarrow> jsstring \<Rightarrow> bool" where
  "startsWith s p \<longleftrightarrow> take (length p) s = p"

text \<open>\<open>s.split(',')[0]\<close>: the part of \<open>s\<close> before its first comma (all of \<open>s\<close> if none).\<close>

definition split_first :: "jschar \<Rightarrow> jsstring \<Rightarrow> jsstring" where
  "split_first sep s = takeWhile (\<lambda>c. c \<noteq> sep) s"

text \<open>
  \<open>Number.prototype.toString\<close> on an integer value (counters and millisecond time stamps;
  every such value is below \<open>10^21\<close>, where JavaScript prints plain decimal digits).
\<close>

fun digits :: "nat \<Rightarrow> jsstring" where
  "digits n = (if n < 10 then [of_nat (48 + n)]
               else digits (n div 10) @ [of_nat (48 + n mod 10)])"

definition toString :: "int \<Rightarrow> jsstring" where
  "toString i = (if i < 0 then js ''-'' @ digits (nat (- i)) else digits (nat i))"

text \<open>
  A thrown value: an \<open>Error\<close> with its message, a TypeError of the engine (whose message
  the engine words), or anything that is no \<open>Error\<close>.
\<close>

datatype thrown = Error jsstring | TypeError | NonError

text \<open>The truthiness of an optional string (\<open>null\<close> and \<open>''\<close> are falsy).\<close>

fun truthy_string :: "jsstring option \<Rightarrow> bool" where
  "truthy_string None = False"
| "truthy_string (Some s) = (s \<noteq> [])"


section \<open>Rate-limiting middleware\<close>

text \<open>
  The request as the middleware reads it: \<open>request.headers.get\<close> and
  \<open>request.nextUrl.pathname\<close>.
\<close>

record request =
  headers_get :: "jsstring \<Rightarrow> jsstring option"
  pathname :: jsstring

text \<open>The answer of \<open>ratelimit.limit(identifier)\<close>, a call to the hosted limiter.\<close>

record ratelimit_response =
  success :: bool
  limit :: int
  reset :: int
  remaining :: int

text \<open>
  \<open>NextResponse.next()\<close> forwards the request; \<open>NextResponse.json({error: e}, {status: n})\<close>
  answers it. Only the headers this code sets are recorded.
\<close>

datatype next_response = NextResponse_next | NextResponse_json jsstring nat

record middleware_response =
  response :: next_response
  headers :: "(jsstring \<times> jsstring) list"

fun headers_set :: "jsstring \<Rightarrow> jsstring \<Rightarrow> (jsstring \<times> jsstring) list \<Rightarrow> (jsstring \<times> jsstring) list" where
  "headers_set k v [] = [(k, v)]"
| "headers_set k v ((k', v') # hs) =
     (if k' = k then (k, v) # hs else (k', v') # headers_set k v hs)"

definition getIP :: "request \<Rightarrow> jsstring" where
  "getIP request =
     (let forwardedFor = headers_get request (js ''x-forwarded-for'') in
      if truthy_string forwardedFor
      then trim (split_first (of_nat (of_char CHR '','')) (the forwardedFor))
      else
        let xRealIP = headers_get request (js ''x-real-ip'') in
        if truthy_string xRealIP then the xRealIP
        else js ''127.0.0.1'')"

text \<open>
  \<open>middleware ratelimit now request\<close>: \<open>ratelimit\<close> is the hosted limiter (\<open>Inl\<close> when the
  call throws) and \<open>now\<close> the value of \<open>Date.now()\<close>. The \<open>try\<close> block's only fallible call
  is the limiter's; its \<open>catch\<close> branch forwards the request.
\<close>

definition middleware ::
  "(jsstring \<Rightarrow> thrown + ratelimit_response) \<Rightarrow> int \<Rightarrow> request \<Rightarrow> middleware_response" where
  "middleware ratelimit now request =
     (let ip = getIP request in
      if pathname request = js ''/api/chat'' then
        (let identifier = ip @ js '':'' @ pathname request in
         case ratelimit identifier of
           Inl error \<Rightarrow> \<lparr>response = NextResponse_next, headers = []\<rparr>
         | Inr r \<Rightarrow>
            (let resp = (if success r then NextResponse_next
                         else NextResponse_json (js ''Too many requests'') 429);
                 h1 = headers_set (js ''X-RateLimit-Limit'') (toString (limit r)) [];
                 h2 = headers_set (js ''X-RateLimit-Remaining'') (toString (remaining r)) h1;
                 h3 = headers_set (js ''X-RateLimit-Reset'') (toString (reset r)) h2;
                 h4 = (if \<not> success r
                       then headers_set (js ''Retry-After'')
                              (toString \<lceil>real_of_int (reset r - now) / 1000\<rceil>) h3
                       else h3)
             in \<lparr>response = resp, headers = h4\<rparr>))
      else \<lparr>response = NextResponse_next, headers = []\<rparr>)"


section \<open>Chat endpoint: scraping\<close>

text \<open>A parsed JSON value, as \<open>req.json()\<close> delivers the request body.\<close>

datatype json =
    JNull
  | JBool bool
  | JNum real
  | JStr jsstring
  | JArr "json list"
  | JObj "(jsstring \<times> json) list"

text \<open>
  \<open>property v k\<close> reads an own property of a parsed value; \<open>None\<close> is \<open>undefined\<close>.
  Only an object carries the keys read here (\<open>query\<close>, \<open>urls\<close>); of a repeated
  key, \<open>JSON.parse\<close> keeps the last value.
\<close>

fun property :: "json \<Rightarrow> jsstring \<Rightarrow> json option" where
  "property (JObj kvs) k = map_of (rev kvs) k"
| "property _ k = None"

text \<open>The truthiness of a value that may be \<open>undefined\<close>.\<close>

fun truthy :: "json option \<Rightarrow> bool" where
  "truthy None = False"
| "truthy (Some JNull) = False"
| "truthy (Some (JBool b)) = b"
| "truthy (Some (JNum n)) = (n \<noteq> 0)"
| "truthy (Some (JStr s)) = (s \<noteq> [])"
| "truthy (Some (JArr vs)) = True"
| "truthy (Some (JObj kvs)) = True"

fun isArray :: "json option \<Rightarrow> bool" where
  "isArray (Some (JArr vs)) = True"
| "isArray _ = False"

fun elements :: "json option \<Rightarrow> json list" where
  "elements (Some (JArr vs)) = vs"
| "elements _ = []"

record source =
  url :: jsstring
  content :: jsstring
  title :: "jsstring option"

text \<open>
  What the handler does to the outside world, in order: a \<open>page.goto(url)\<close>, a pause of the
  given number of milliseconds, a completion request to the hosted model (the context built
  from the sources, and the query).
\<close>

datatype event = Goto jsstring | Sleep nat | ModelCall jsstring json

text \<open>
  The HTML library, over any type of documents: \<open>ch_load\<close> is \<open>cheerio.load\<close>,
  \<open>ch_remove sel d\<close> is \<open>d(sel).remove()\<close>, \<open>ch_length d sel\<close> is \<open>d(sel).length\<close> and
  \<open>ch_text d sel\<close> is \<open>d(sel).text()\<close>.
\<close>

record 'dom cheerio =
  ch_load :: "jsstring \<Rightarrow> 'dom"
  ch_remove :: "jsstring \<Rightarrow> 'dom \<Rightarrow> 'dom"
  ch_length :: "'dom \<Rightarrow> jsstring \<Rightarrow> nat"
  ch_text :: "'dom \<Rightarrow> jsstring \<Rightarrow> jsstring"

text \<open>
  One call of \<open>page.goto\<close> throws, or returns a response (\<open>Some ok\<close>, with the value of
  \<open>response.ok()\<close>) or \<open>null\<close> (\<open>None\<close>).
\<close>

datatype navigation = Throws | Returns "bool option"

text \<open>
  The behaviour of one browser page: whether \<open>browser.newPage()\<close> throws, whether one of
  the four set-up calls throws, the outcome of the k-th call of \<open>page.goto\<close>, the markup
  \<open>page.content()\<close> returns (\<open>None\<close> when it throws), and whether \<open>page.close()\<close> throws.
\<close>

record page =
  newPage_throws :: bool
  setup_throws :: bool
  goto :: "nat \<Rightarrow> navigation"
  page_content :: "jsstring option"
  close_throws :: bool

text \<open>
  The browser: what \<open>puppeteer.launch\<close> and \<open>browser.close\<close> throw, if anything, and the
  page opened for the URL at each position of the list.
\<close>

record browser =
  launch_throws :: "thrown option"
  pages :: "nat \<Rightarrow> page"
  browser_close_throws :: "thrown option"

text \<open>\<open>s.replace(/c+/g, r)\<close> for a character class \<open>P\<close>: every maximal run becomes \<open>r\<close>.\<close>

function replace_runs :: "(jschar \<Rightarrow> bool) \<Rightarrow> jsstring \<Rightarrow> jsstring \<Rightarrow> jsstring" where
  "replace_runs P r [] = []"
| "replace_runs P r (c # s) =
     (if P c then r @ replace_runs P r (dropWhile P s) else c # replace_runs P r s)"
  by pat_completeness auto
termination
  by (relation "measure (\<lambda>(P, r, s). length s)") (auto simp: length_dropWhile_le less_Suc_eq_le)

definition unwanted :: jsstring where
  \<open>unwanted = js ''script, style, noscript, iframe, nav, header, footer, [class*="ad"], [class*="menu"], [id*="menu"]''\<close>

definition contentSelectors :: "jsstring list" where
  \<open>contentSelectors =
     [js ''article'', js ''main'', js ''[role="main"]'', js ''.content'', js ''#content'',
      js ''.article-body'', js ''.post-content'', js ''.entry-content'', js ''.main-content'']\<close>

text \<open>The loop over the selectors: the text of the first selector that matches an element.\<close>

fun mainContent :: "'dom cheerio \<Rightarrow> 'dom \<Rightarrow> jsstring list \<Rightarrow> jsstring" where
  "mainContent ch d [] = []"
| "mainContent ch d (selector # selectors) =
     (if ch_length ch d selector > 0 then ch_text ch d selector
      else mainContent ch d selectors)"

definition cleanedContent :: "jsstring \<Rightarrow> jsstring" where
  "cleanedContent s =
     take 8000 (trim (replace_runs (\<lambda>c. c = 0x0A) (js '' '')
                        (replace_runs isWhiteSpace (js '' '') s)))"

text \<open>The extractor: from the markup of a page to its cleaned text.\<close>

definition extractText :: "'dom cheerio \<Rightarrow> jsstring \<Rightarrow> jsstring" where
  "extractText ch markup =
     (let d = ch_remove ch unwanted (ch_load ch markup);
          m = mainContent ch d contentSelectors;
          m' = (if m = [] then ch_text ch d (js ''body'') else m)
      in cleanedContent m')"

text \<open>The record pushed for a page, if any.\<close>

definition extractSource :: "'dom cheerio \<Rightarrow> jsstring \<Rightarrow> jsstring \<Rightarrow> source option" where
  "extractSource ch markup u =
     (let d = ch_remove ch unwanted (ch_load ch markup);
          c = extractText ch markup;
          t = trim (ch_text ch d (js ''title''))
      in if c \<noteq> [] then Some \<lparr>url = u, content = c, title = Some (if t \<noteq> [] then t else u)\<rparr>
         else None)"

text \<open>
  The retry loop, with \<open>retries\<close> attempts left before the k-th call of \<open>page.goto\<close>. The
  result is \<open>None\<close> when the last error is rethrown, and the value of \<open>response\<close> otherwise.
\<close>

fun navigate :: "(nat \<Rightarrow> navigation) \<Rightarrow> jsstring \<Rightarrow> nat \<Rightarrow> nat \<Rightarrow> bool option option \<times> event list" where
  "navigate g u 0 k = (Some None, [])"
| "navigate g u (Suc retries) k =
     (case g k of
        Returns r \<Rightarrow> (Some r, [Goto u])
      | Throws \<Rightarrow>
          if retries = 0 then (None, [Goto u])
          else (case navigate g u retries (Suc k) of
                  (r, tr) \<Rightarrow> (r, Goto u # Sleep 2000 # tr)))"

text \<open>
  The inner \<open>try\<close> block for one page: \<open>None\<close> when nothing is pushed, because the text is
  empty or because an error was thrown and caught by \<open>catch (scrapeError)\<close>.
\<close>

definition scrapePage :: "'dom cheerio \<Rightarrow> page \<Rightarrow> jsstring \<Rightarrow> source option \<times> event list" where
  "scrapePage ch p u =
     (if setup_throws p then (None, [])
      else case navigate (goto p) u 3 0 of
          (None, tr) \<Rightarrow> (None, tr)
        | (Some r, tr) \<Rightarrow>
            if r = None \<or> r = Some False then (None, tr)
            else (case page_content p of
                    None \<Rightarrow> (None, tr)
                  | Some markup \<Rightarrow> (extractSource ch markup u, tr)))"

definition push :: "source list \<Rightarrow> source option \<Rightarrow> source list" where
  "push sources r = (case r of None \<Rightarrow> sources | Some s \<Rightarrow> sources @ [s])"

text \<open>
  The loop over the URLs, at position \<open>i\<close> of the list. An entry that is no string makes
  \<open>url.startsWith\<close> throw a TypeError; that error, like one of \<open>browser.newPage()\<close> or
  \<open>page.close()\<close>, leaves the loop and is caught by \<open>catch (browserError)\<close>.
\<close>

fun scrapeLoop ::
  "'dom cheerio \<Rightarrow> browser \<Rightarrow> nat \<Rightarrow> json list \<Rightarrow> source list \<Rightarrow> source list \<times> event list" where
  "scrapeLoop ch b i [] sources = (sources, [])"
| "scrapeLoop ch b i (JStr u # urls) sources =
     (if \<not> startsWith u (js ''http://'') \<and> \<not> startsWith u (js ''https://'')
      then scrapeLoop ch b (Suc i) urls sources
      else if newPage_throws (pages b i) then (sources, [])
      else (case scrapePage ch (pages b i) u of
              (r, tr) \<Rightarrow>
                if close_throws (pages b i) then (push sources r, tr)
                else (case scrapeLoop ch b (Suc i) urls (push sources r) of
                        (result, tr') \<Rightarrow> (result, tr @ tr'))))"
| "scrapeLoop ch b i (_ # urls) sources = (sources, [])"

definition scrapeWebsites ::
  "'dom cheerio \<Rightarrow> browser \<Rightarrow> json list \<Rightarrow> (thrown + source list) \<times> event list" where
  "scrapeWebsites ch b urls =
     (case launch_throws b of
        Some e \<Rightarrow> (Inl e, [])
      | None \<Rightarrow>
          (case scrapeLoop ch b 0 urls [] of
             (sources, tr) \<Rightarrow>
               (case browser_close_throws b of
                  Some e \<Rightarrow> (Inl e, tr)
                | None \<Rightarrow> (Inr sources, tr))))"


section \<open>Chat endpoint: answer and handler\<close>

fun join :: "jsstring \<Rightarrow> jsstring list \<Rightarrow> jsstring" where
  "join sep [] = []"
| "join sep [s] = s"
| "join sep (s # t # ss) = s @ sep @ join sep (t # ss)"

definition combinedContext :: "source list \<Rightarrow> jsstring" where
  "combinedContext sources =
     join [0x0A, 0x0A] (map (\<lambda>s. js ''[Source: '' @ url s @ js '']'' @ [0x0A] @ content s) sources)"

text \<open>
  \<open>generateAnswer groq query sources\<close>: \<open>groq ctx query\<close> is the completion request whose user
  message is \<open>Context:\n\<close>ctx\<open>\n\nQuestion: \<close>query; it throws, or returns the content of the
  first choice (\<open>None\<close> when there is none). The client exists by the time the handler gets
  here.
\<close>

definition generateAnswer ::
  "(jsstring \<Rightarrow> json \<Rightarrow> thrown + jsstring option) \<Rightarrow> json \<Rightarrow> source list
     \<Rightarrow> (thrown + jsstring \<times> source list) \<times> event list" where
  "generateAnswer groq query sources =
     (if length sources = 0
      then (Inr (js ''I couldn't extract any content from the provided URLs. Please check the URLs and try again.'', []), [])
      else
        (let ctx = combinedContext sources in
         case groq ctx query of
           Inl aiError \<Rightarrow> (Inl (Error (js ''Failed to generate AI response'')), [ModelCall ctx query])
         | Inr c \<Rightarrow>
             (Inr (if truthy_string c then the c else js ''No answer could be generated.'', sources),
              [ModelCall ctx query])))"

text \<open>
  The lazily created client: \<open>client\<close> tells whether \<open>groqClient\<close> is set, \<open>key\<close> is
  \<open>process.env.GROQ_API_KEY\<close>. The result is the new value of \<open>client\<close>, or the error.
\<close>

definition getGroqClient :: "jsstring option \<Rightarrow> bool \<Rightarrow> thrown + bool" where
  "getGroqClient key client =
     (if \<not> client then
        (if \<not> truthy_string key
         then Inl (Error (js ''GROQ_API_KEY environment variable is not set''))
         else Inr True)
      else Inr client)"

text \<open>
  The body of a response: \<open>{error}\<close>; \<open>{error, details}\<close> of the last \<open>catch\<close>, which carries
  the message and the stack of the thrown value; \<open>{answer, sources}\<close>.
\<close>

datatype chat_body =
    ErrorBody jsstring
  | FailureBody thrown
  | AnswerBody jsstring "source list"

record chat_response =
  status :: nat
  body :: chat_body

text \<open>\<open>const { query, urls } = ...\<close>: destructuring \<open>null\<close> throws a TypeError.\<close>

fun destructure :: "json \<Rightarrow> thrown + json option \<times> json option" where
  "destructure JNull = Inl TypeError"
| "destructure v = Inr (property v (js ''query''), property v (js ''urls''))"

text \<open>
  \<open>POST ch b groq key client request_json\<close>: the chat handler, with the result of
  \<open>req.json()\<close> (\<open>Inl\<close> when the body is no JSON). It returns the response, the new value of
  \<open>client\<close> and the events in order.
\<close>

definition POST ::
  "'dom cheerio \<Rightarrow> browser \<Rightarrow> (jsstring \<Rightarrow> json \<Rightarrow> thrown + jsstring option) \<Rightarrow> jsstring option \<Rightarrow> bool
     \<Rightarrow> thrown + json \<Rightarrow> chat_response \<times> bool \<times> event list" where
  "POST ch b groq key client request_json =
     (case getGroqClient key client of
        Inl error \<Rightarrow>
          (\<lparr>status = 500, body = ErrorBody (js ''Server configuration error: GROQ_API_KEY not set'')\<rparr>,
           client, [])
      | Inr client' \<Rightarrow>
         (case request_json of
            Inl error \<Rightarrow> (\<lparr>status = 500, body = FailureBody error\<rparr>, client', [])
          | Inr data \<Rightarrow>
             (case destructure data of
                Inl error \<Rightarrow> (\<lparr>status = 500, body = FailureBody error\<rparr>, client', [])
              | Inr (query, urls) \<Rightarrow>
                  if \<not> truthy query \<or> \<not> truthy urls \<or> \<not> isArray urls
                  then (\<lparr>status = 400, body = ErrorBody (js ''Invalid request. Provide a query and URLs.'')\<rparr>,
                        client', [])
                  else
                    (case scrapeWebsites ch b (elements urls) of
                       (Inl error, tr) \<Rightarrow> (\<lparr>status = 500, body = FailureBody error\<rparr>, client', tr)
                     | (Inr sources, tr) \<Rightarrow>
                         if length sources = 0
                         then (\<lparr>status = 404, body = ErrorBody (js ''Could not scrape any content from the provided URLs. Please check the URLs and try again.'')\<rparr>,
                               client', tr)
                         else
                           (case generateAnswer groq (the query) sources of
                              (Inl error, tr') \<Rightarrow>
                                (\<lparr>status = 500, body = FailureBody error\<rparr>, client', tr @ tr')
                            | (Inr (answer, used), tr') \<Rightarrow>
                                (\<lparr>status = 200, body = AnswerBody answer used\<rparr>, client', tr @ tr'))))))"


section \<open>Share endpoint\<close>

text \<open>
  The types \<open>Message\<close> and \<open>Conversation\<close>; a field whose name is taken already carries a
  prime.
\<close>

datatype role = User | Ai

record message =
  role :: role
  content' :: jsstring
  sources' :: "source list option"

record conversation =
  id' :: jsstring
  messages :: "message list"
  urls' :: jsstring

text \<open>
  The hosted key-value store: each key holds a text and the instant, in seconds, at which
  it expires. \<open>redis_set\<close> is \<open>redis.set(key, value, {ex})\<close> with a string value, at time
  \<open>now\<close>.
\<close>

type_synonym redis = "jsstring \<rightharpoonup> jsstring \<times> int"

definition redis_set :: "redis \<Rightarrow> jsstring \<Rightarrow> jsstring \<Rightarrow> int \<Rightarrow> int \<Rightarrow> redis" where
  "redis_set store key v ex now = store(key \<mapsto> (v, now + ex))"

text \<open>
  \<open>redis_get\<close> is \<open>redis.get(key)\<close>: \<open>null\<close> for a key that is absent or has expired. The
  client is built with \<open>new Redis({url, token})\<close>, so with its default options, under which
  it reads the stored text as JSON (\<open>parse\<close>, the runtime's \<open>JSON.parse\<close>) and returns the
  value read; it returns the text itself, a string, only when the text is no JSON.
\<close>

definition redis_get :: "(jsstring \<Rightarrow> json option) \<Rightarrow> redis \<Rightarrow> jsstring \<Rightarrow> int \<Rightarrow> json option" where
  "redis_get parse store key now =
     (case store key of
        None \<Rightarrow> None
      | Some (text, expires) \<Rightarrow>
          if now < expires
          then Some (case parse text of Some v \<Rightarrow> v | None \<Rightarrow> JStr text)
          else None)"

text \<open>
  The conversion of a value to a string, which \<open>JSON.parse\<close> applies to its argument:
  an object becomes \<open>[object Object]\<close>, an array the texts of its elements joined by commas
  (nothing for \<open>null\<close>), a number what \<open>num\<close> prints for it.
\<close>

fun ToString :: "(real \<Rightarrow> jsstring) \<Rightarrow> json \<Rightarrow> jsstring" where
  "ToString num JNull = js ''null''"
| "ToString num (JBool b) = (if b then js ''true'' else js ''false'')"
| "ToString num (JNum n) = num n"
| "ToString num (JStr s) = s"
| "ToString num (JArr vs) =
     join (js '','') (map (\<lambda>v. if v = JNull then [] else ToString num v) vs)"
| "ToString num (JObj kvs) = js ''[object Object]''"

text \<open>
  The bodies of the share handlers: \<open>{error}\<close> and \<open>{success: true, id}\<close> for \<open>POST\<close>,
  \<open>{error}\<close> and \<open>{conversation}\<close> for \<open>GET\<close>, the last with the value \<open>JSON.parse\<close>
  returns.
\<close>

datatype share_post_body = PostError jsstring | PostSuccess jsstring

datatype share_get_body = GetError jsstring | GetConversation json

record 'body share_response =
  share_status :: nat
  share_body :: 'body

text \<open>
  \<open>share_POST stringify redis_throws now store request_json\<close>: \<open>stringify\<close> is
  \<open>JSON.stringify\<close> on conversations, \<open>redis_throws\<close> tells whether the call to the store
  throws, \<open>now\<close> is the time in seconds. \<open>request_json\<close> is \<open>Inl\<close> when \<open>req.json()\<close> or
  the read of \<open>data.conversation\<close> throws, \<open>Inr None\<close> when \<open>data.conversation\<close> is falsy,
  and \<open>Inr (Some c)\<close> for \<open>data.conversation as Conversation\<close>. The handler returns the
  response and the store.
\<close>

definition share_POST ::
  "(conversation \<Rightarrow> jsstring) \<Rightarrow> bool \<Rightarrow> int \<Rightarrow> redis \<Rightarrow> thrown + conversation option
     \<Rightarrow> share_post_body share_response \<times> redis" where
  "share_POST stringify redis_throws now store request_json =
     (case request_json of
        Inl error \<Rightarrow>
          (\<lparr>share_status = 500, share_body = PostError (js ''Failed to share conversation'')\<rparr>, store)
      | Inr None \<Rightarrow>
          (\<lparr>share_status = 400, share_body = PostError (js ''No conversation data provided'')\<rparr>, store)
      | Inr (Some conversation) \<Rightarrow>
          (let cid = id' conversation in
           if redis_throws
           then (\<lparr>share_status = 500, share_body = PostError (js ''Failed to share conversation'')\<rparr>,
                 store)
           else (\<lparr>share_status = 200, share_body = PostSuccess cid\<rparr>,
                 redis_set store (js ''conversation:'' @ cid) (stringify conversation)
                   (60 * 60 * 24 * 7) now)))"

text \<open>
  \<open>share_GET parse num redis_throws now store cid\<close>: \<open>parse\<close> is \<open>JSON.parse\<close> on a text
  (\<open>None\<close> when it throws), \<open>num\<close> prints a number, \<open>cid\<close> is the value of
  \<open>searchParams.get('id')\<close>. \<open>JSON.parse(conversationData as string)\<close> gets the value the
  client returned, whatever the cast says, and parses its conversion to a string.
\<close>

definition share_GET ::
  "(jsstring \<Rightarrow> json option) \<Rightarrow> (real \<Rightarrow> jsstring) \<Rightarrow> bool \<Rightarrow> int \<Rightarrow> redis \<Rightarrow> jsstring option
     \<Rightarrow> share_get_body share_response" where
  "share_GET parse num redis_throws now store cid =
     (if \<not> truthy_string cid
      then \<lparr>share_status = 400, share_body = GetError (js ''Conversation ID is required'')\<rparr>
      else if redis_throws
      then \<lparr>share_status = 500, share_body = GetError (js ''Failed to retrieve conversation'')\<rparr>
      else
        (let conversationData = redis_get parse store (js ''conversation:'' @ the cid) now in
         if \<not> truthy conversationData
         then \<lparr>share_status = 404, share_body = GetError (js ''Conversation not found'')\<rparr>
         else (case parse (ToString num (the conversationData)) of
                 None \<Rightarrow> \<lparr>share_status = 500, share_body = GetError (js ''Failed to retrieve conversation'')\<rparr>
               | Some conversation \<Rightarrow>
                   \<lparr>share_status = 200, share_body = GetConversation conversation\<rparr>)))"


section \<open>Sample environments\<close>

text \<open>
  A document library in which a document is its own text: no selector matches an element,
  and only \<open>body\<close> has text.
\<close>

definition plain_cheerio :: "jsstring cheerio" where
  "plain_cheerio =
     \<lparr>ch_load = (\<lambda>markup. markup), ch_remove = (\<lambda>sel d. d),
      ch_length = (\<lambda>d sel. 0), ch_text = (\<lambda>d sel. if sel = js ''body'' then d else [])\<rparr>"

text \<open>A page that loads at the first attempt, and a page whose every navigation throws.\<close>

definition page_ok :: "jsstring \<Rightarrow> page" where
  "page_ok markup =
     \<lparr>newPage_throws = False, setup_throws = False, goto = (\<lambda>k. Returns (Some True)),
      page_content = Some markup, close_throws = False\<rparr>"

definition page_down :: page where
  "page_down =
     \<lparr>newPage_throws = False, setup_throws = False, goto = (\<lambda>k. Throws),
      page_content = None, close_throws = False\<rparr>"

text \<open>A page that answers every navigation with a non-success status.\<close>

definition page_not_found :: page where
  "page_not_found =
     \<lparr>newPage_throws = False, setup_throws = False, goto = (\<lambda>k. Returns (Some False)),
      page_content = Some [], close_throws = False\<rparr>"

text \<open>A browser that launches and closes, with the given pages.\<close>

definition browser_with :: "(nat \<Rightarrow> page) \<Rightarrow> browser" where
  "browser_with ps = \<lparr>launch_throws = None, pages = ps, browser_close_throws = None\<rparr>"

text \<open>A model that answers every request with the same text.\<close>

definition groq_fixed :: "jsstring \<Rightarrow> json \<Rightarrow> thrown + jsstring option" where
  "groq_fixed ctx query = Inr (Some (js ''An answer.''))"

text \<open>A request body \<open>{query, urls}\<close>.\<close>

definition chat_request :: "json \<Rightarrow> json list \<Rightarrow> thrown + json" where
  "chat_request query urls = Inr (JObj [(js ''query'', query), (js ''urls'', JArr urls)])"


text \<open>
  A conversation, its JSON text and the value of that text, and the two runtime functions
  on them: the writing of the conversation and the reading of a text (only this text is
  JSON to it).
\<close>

definition sample_conversation :: conversation where
  "sample_conversation =
     \<lparr>id' = js ''k3x9q'',
      messages =
        [\<lparr>role = User, content' = js ''Hi'', sources' = None\<rparr>,
         \<lparr>role = Ai, content' = js ''Hello'',
          sources' = Some [\<lparr>url = js ''http://a'', content = js ''hello world'',
                            title = Some (js ''A'')\<rparr>]\<rparr>],
      urls' = js ''http://a''\<rparr>"

definition sample_text :: jsstring where
  \<open>sample_text = js ''{"id":"k3x9q","messages":[{"role":"user","content":"Hi"},{"role":"ai","content":"Hello","sources":[{"url":"http://a","content":"hello world","title":"A"}]}],"urls":"http://a"}''\<close>

definition sample_value :: json where
  "sample_value =
     JObj [(js ''id'', JStr (js ''k3x9q'')),
           (js ''messages'', JArr
              [JObj [(js ''role'', JStr (js ''user'')), (js ''content'', JStr (js ''Hi''))],
               JObj [(js ''role'', JStr (js ''ai'')), (js ''content'', JStr (js ''Hello'')),
                     (js ''sources'', JArr
                        [JObj [(js ''url'', JStr (js ''http://a'')),
                               (js ''content'', JStr (js ''hello world'')),
                               (js ''title'', JStr (js ''A''))]])]]),
           (js ''urls'', JStr (js ''http://a''))]"

definition sample_stringify :: "conversation \<Rightarrow> jsstring" where
  "sample_stringify c = (if c = sample_conversation then sample_text else js ''{}'')"

definition sample_parse :: "jsstring \<Rightarrow> json option" where
  "sample_parse s = (if s = sample_text then Some sample_value else None)"

text \<open>A printer of numbers, for integers.\<close>

definition sample_num :: "real \<Rightarrow> jsstring" where
  "sample_num n = toString \<lfloor>n\<rfloor>"


section \<open>Properties of the middleware\<close>

lemma js_simps:
  "js [] = []"
  "js (c # s) = of_nat (of_char c) # js s"
  by (simp_all add: js_def)

text \<open>
  C8. For a request to the chat endpoint, when the call to the rate-limiting service
  throws, the middleware forwards the request (\<open>NextResponse.next()\<close>) with no rate-limit
  header attached: it fails open.
\<close>

theorem middleware_fail_open:
  assumes "pathname request = js ''/api/chat''"
    and "ratelimit (getIP request @ js '':'' @ pathname request) = Inl e"
  shows "middleware ratelimit now request = \<lparr>response = NextResponse_next, headers = []\<rparr>"
  using assms by (simp add: middleware_def Let_def js_simps)

theorem middleware_fail_open_witness:
  "pathname \<lparr>headers_get = (\<lambda>h. None), pathname = js ''/api/chat''\<rparr> = js ''/api/chat''
   \<and> (\<lambda>i. Inl NonError :: thrown + ratelimit_response)
        (getIP \<lparr>headers_get = (\<lambda>h. None), pathname = js ''/api/chat''\<rparr> @ js '':''
          @ pathname \<lparr>headers_get = (\<lambda>h. None), pathname = js ''/api/chat''\<rparr>) = Inl NonError
   \<and> middleware (\<lambda>i. Inl NonError) 0 \<lparr>headers_get = (\<lambda>h. None), pathname = js ''/api/chat''\<rparr>
       = \<lparr>response = NextResponse_next, headers = []\<rparr>"
  using middleware_fail_open
    [of "\<lparr>headers_get = (\<lambda>h. None), pathname = js ''/api/chat''\<rparr>" "\<lambda>i. Inl NonError" NonError 0]
  by (simp add: js_simps)

text \<open>
  C9. For a request to \<open>/api/chat\<close> that the limiter rejects, the middleware answers with
  status 429 and the headers \<open>X-RateLimit-Limit\<close>, \<open>X-RateLimit-Remaining\<close>,
  \<open>X-RateLimit-Reset\<close> (the limiter's numbers) and \<open>Retry-After\<close>, the ceiling of
  \<open>(reset - now) / 1000\<close>: the seconds from the current time to the reset time stamp.
\<close>

theorem middleware_rejected:
  assumes "pathname request = js ''/api/chat''"
    and "ratelimit (getIP request @ js '':'' @ pathname request) = Inr r"
    and "\<not> success r"
  shows "response (middleware ratelimit now request) = NextResponse_json (js ''Too many requests'') 429
    \<and> map_of (headers (middleware ratelimit now request)) (js ''X-RateLimit-Limit'')
        = Some (toString (limit r))
    \<and> map_of (headers (middleware ratelimit now request)) (js ''X-RateLimit-Remaining'')
        = Some (toString (remaining r))
    \<and> map_of (headers (middleware ratelimit now request)) (js ''X-RateLimit-Reset'')
        = Some (toString (reset r))
    \<and> map_of (headers (middleware ratelimit now request)) (js ''Retry-After'')
        = Some (toString \<lceil>real_of_int (reset r - now) / 1000\<rceil>)"
  using assms by (simp add: middleware_def Let_def js_simps)

theorem middleware_rejected_witness:
  "response (middleware
       (\<lambda>i. if i = js ''10.0.0.7:/api/chat''
            then Inr \<lparr>success = False, limit = 5, reset = 1700000001500, remaining = 0\<rparr>
            else Inl NonError)
       1700000000000
       \<lparr>headers_get = [js ''x-forwarded-for'' \<mapsto> js '' 10.0.0.7 , 10.0.0.1''],
        pathname = js ''/api/chat''\<rparr>) = NextResponse_json (js ''Too many requests'') 429
   \<and> headers (middleware
       (\<lambda>i. if i = js ''10.0.0.7:/api/chat''
            then Inr \<lparr>success = False, limit = 5, reset = 1700000001500, remaining = 0\<rparr>
            else Inl NonError)
       1700000000000
       \<lparr>headers_get = [js ''x-forwarded-for'' \<mapsto> js '' 10.0.0.7 , 10.0.0.1''],
        pathname = js ''/api/chat''\<rparr>)
     = [(js ''X-RateLimit-Limit'', js ''5''), (js ''X-RateLimit-Remaining'', js ''0''),
        (js ''X-RateLimit-Reset'', js ''1700000001500''), (js ''Retry-After'', js ''2'')]"
proof -
  let ?request = "\<lparr>headers_get = [js ''x-forwarded-for'' \<mapsto> js '' 10.0.0.7 , 10.0.0.1''],
                   pathname = js ''/api/chat''\<rparr>"
  let ?r = "\<lparr>success = False, limit = 5, reset = 1700000001500, remaining = 0\<rparr>"
  let ?ratelimit = "\<lambda>i. if i = js ''10.0.0.7:/api/chat'' then Inr ?r else Inl NonError"
  have ip: "getIP ?request = js ''10.0.0.7''"
    unfolding getIP_def
    by (simp add: Let_def trim_def split_first_def isWhiteSpace_def js_simps)
  have 1: "pathname ?request = js ''/api/chat''" by simp
  have 2: "?ratelimit (getIP ?request @ js '':'' @ pathname ?request) = Inr ?r"
    unfolding ip by (simp add: js_simps)
  have 3: "\<not> success ?r" by simp
  have h: "headers (middleware ?ratelimit 1700000000000 ?request)
     = [(js ''X-RateLimit-Limit'', js ''5''), (js ''X-RateLimit-Remaining'', js ''0''),
        (js ''X-RateLimit-Reset'', js ''1700000001500''), (js ''Retry-After'', js ''2'')]"
    unfolding middleware_def Let_def ip by (simp add: toString_def js_simps)
  show ?thesis
    using middleware_rejected[where ratelimit = ?ratelimit and now = 1700000000000, OF 1 2 3] h
    by simp
qed


section \<open>Properties of scraping\<close>

lemma length_cleanedContent: "length (cleanedContent s) \<le> 8000"
  by (simp add: cleanedContent_def)

lemma length_extractText: "length (extractText ch markup) \<le> 8000"
  by (simp add: extractText_def Let_def length_cleanedContent)

lemma valid_scheme_nonempty:
  "startsWith u (js ''http://'') \<or> startsWith u (js ''https://'') \<Longrightarrow> u \<noteq> []"
  by (auto simp: startsWith_def js_simps)

lemma extractSource_Some:
  assumes "extractSource ch markup u = Some s"
  shows "url s = u" and "content s = extractText ch markup" and "content s \<noteq> []"
    and "title s = Some (if trim (ch_text ch (ch_remove ch unwanted (ch_load ch markup)) (js ''title'')) \<noteq> []
                         then trim (ch_text ch (ch_remove ch unwanted (ch_load ch markup)) (js ''title''))
                         else u)"
  using assms by (auto simp: extractSource_def Let_def split: if_splits)

lemma scrapePage_Some:
  assumes "scrapePage ch p u = (Some s, tr)"
  shows "\<exists>markup. extractSource ch markup u = Some s"
  using assms
  by (auto simp: scrapePage_def split: if_splits prod.splits option.splits)

lemma scrapePage_url: "scrapePage ch p u = (Some s, tr) \<Longrightarrow> url s = u"
  using scrapePage_Some extractSource_Some(1) by blast

text \<open>
  A property that every extracted record of a URL with a valid scheme has, every record of
  the result has.
\<close>

lemma scrapeLoop_invariant:
  assumes "\<And>u markup s. startsWith u (js ''http://'') \<or> startsWith u (js ''https://'') \<Longrightarrow>
              extractSource ch markup u = Some s \<Longrightarrow> P s"
    and "\<forall>s \<in> set sources. P s"
  shows "\<forall>s \<in> set (fst (scrapeLoop ch b i urls sources)). P s"
  using assms(2)
proof (induction urls arbitrary: i sources)
  case Nil
  then show ?case by simp
next
  case (Cons x urls)
  show ?case
  proof (cases x)
    case (JStr u)
    show ?thesis
    proof (cases "\<not> startsWith u (js ''http://'') \<and> \<not> startsWith u (js ''https://'')")
      case True
      with JStr Cons show ?thesis by simp
    next
      case valid: False
      show ?thesis
      proof (cases "newPage_throws (pages b i)")
        case True
        with valid JStr Cons.prems show ?thesis by auto
      next
        case False
        obtain r tr where r: "scrapePage ch (pages b i) u = (r, tr)"
          by (cases "scrapePage ch (pages b i) u")
        have P: "\<forall>s \<in> set (push sources r). P s"
        proof (cases r)
          case None
          with Cons.prems show ?thesis by (simp add: push_def)
        next
          case (Some s)
          with r obtain markup where "extractSource ch markup u = Some s"
            using scrapePage_Some by blast
          with valid assms(1) have "P s" by blast
          with Some Cons.prems show ?thesis by (simp add: push_def)
        qed
        show ?thesis
        proof (cases "close_throws (pages b i)")
          case True
          with valid False r P JStr show ?thesis by auto
        next
          case c: False
          from Cons.IH[OF P, of "Suc i"]
          show ?thesis using valid False r c JStr by (auto split: prod.splits)
        qed
      qed
    qed
  qed (use Cons.prems in simp_all)
qed

lemma push_filter_le:
  assumes "\<And>s. r = Some s \<Longrightarrow> url s = v"
  shows "length (filter (\<lambda>s. url s = u) (push sources r))
           \<le> length (filter (\<lambda>s. url s = u) sources) + (if v = u then 1 else 0)"
  using assms by (cases r) (auto simp: push_def)

lemma scrapeLoop_count:
  "length (filter (\<lambda>s. url s = u) (fst (scrapeLoop ch b i urls sources)))
     \<le> length (filter (\<lambda>s. url s = u) sources) + count_list urls (JStr u)"
proof (induction urls arbitrary: i sources)
  case Nil
  show ?case by simp
next
  case (Cons x urls)
  show ?case
  proof (cases x)
    case (JStr v)
    obtain r tr where r: "scrapePage ch (pages b i) v = (r, tr)"
      by (cases "scrapePage ch (pages b i) v")
    have p: "length (filter (\<lambda>s. url s = u) (push sources r))
               \<le> length (filter (\<lambda>s. url s = u) sources) + (if v = u then 1 else 0)"
      using r scrapePage_url by (intro push_filter_le) blast
    have ih: "length (filter (\<lambda>s. url s = u) (fst (scrapeLoop ch b (Suc i) urls (push sources r))))
               \<le> length (filter (\<lambda>s. url s = u) (push sources r)) + count_list urls (JStr u)"
      by (rule Cons.IH)
    have ih0: "length (filter (\<lambda>s. url s = u) (fst (scrapeLoop ch b (Suc i) urls sources)))
               \<le> length (filter (\<lambda>s. url s = u) sources) + count_list urls (JStr u)"
      by (rule Cons.IH)
    show ?thesis
      using p ih ih0 r JStr by (auto split: prod.splits)
  qed simp_all
qed

lemma scrapeLoop_length:
  "length (fst (scrapeLoop ch b i urls sources)) \<le> length sources + length urls"
proof (induction urls arbitrary: i sources)
  case Nil
  show ?case by simp
next
  case (Cons x urls)
  show ?case
  proof (cases x)
    case (JStr v)
    obtain r tr where r: "scrapePage ch (pages b i) v = (r, tr)"
      by (cases "scrapePage ch (pages b i) v")
    have p: "length (push sources r) \<le> Suc (length sources)"
      by (cases r) (simp_all add: push_def)
    have ih: "length (fst (scrapeLoop ch b (Suc i) urls (push sources r)))
               \<le> length (push sources r) + length urls"
      by (rule Cons.IH)
    have ih0: "length (fst (scrapeLoop ch b (Suc i) urls sources)) \<le> length sources + length urls"
      by (rule Cons.IH)
    show ?thesis
      using p ih ih0 r JStr by (auto split: prod.splits)
  qed simp_all
qed

lemma scrapeWebsites_Inr:
  "fst (scrapeWebsites ch b urls) = Inr sources \<Longrightarrow> sources = fst (scrapeLoop ch b 0 urls [])"
  by (auto simp: scrapeWebsites_def split: option.splits prod.splits)

lemma scrapeWebsites_returns:
  assumes "launch_throws b = None" "browser_close_throws b = None"
  shows "fst (scrapeWebsites ch b urls) = Inr (fst (scrapeLoop ch b 0 urls []))"
  using assms by (simp add: scrapeWebsites_def split: prod.splits)

lemma count_list_map_JStr: "count_list (map JStr us) (JStr u) = count_list us u"
  by (induction us) simp_all

lemma scrapeLoop_invalid_only:
  assumes "\<forall>v \<in> set urls. \<exists>u. v = JStr u \<and> \<not> startsWith u (js ''http://'')
                                   \<and> \<not> startsWith u (js ''https://'')"
  shows "scrapeLoop ch b i urls sources = (sources, [])"
  using assms by (induction urls arbitrary: i) auto

lemma navigate_trace:
  "snd (navigate g u 3 0) \<in>
     {[Goto u], [Goto u, Sleep 2000, Goto u], [Goto u, Sleep 2000, Goto u, Sleep 2000, Goto u]}"
  by (simp add: numeral_3_eq_3 split: navigation.splits prod.splits)

lemma navigate_exhausted:
  assumes "g 0 = Throws" "g 1 = Throws" "g 2 = Throws"
  shows "navigate g u 3 0 = (None, [Goto u, Sleep 2000, Goto u, Sleep 2000, Goto u])"
  using assms by (simp add: numeral_3_eq_3 numeral_2_eq_2)

lemma scrapePage_trace:
  "snd (scrapePage ch p u) \<in>
     {[], [Goto u], [Goto u, Sleep 2000, Goto u], [Goto u, Sleep 2000, Goto u, Sleep 2000, Goto u]}"
proof -
  obtain r tr where n: "navigate (goto p) u 3 0 = (r, tr)"
    by (cases "navigate (goto p) u 3 0")
  have "tr \<in> {[Goto u], [Goto u, Sleep 2000, Goto u], [Goto u, Sleep 2000, Goto u, Sleep 2000, Goto u]}"
    using navigate_trace[of "goto p" u] n by simp
  then show ?thesis
    using n by (auto simp: scrapePage_def split: option.splits)
qed

lemma scrapePage_not_ok:
  "fst (navigate (goto p) u 3 0) = Some (Some False) \<Longrightarrow> fst (scrapePage ch p u) = None"
  by (auto simp: scrapePage_def split: prod.splits option.splits)

lemma scrapePage_exhausted:
  assumes "goto p 0 = Throws" "goto p 1 = Throws" "goto p 2 = Throws"
  shows "fst (scrapePage ch p u) = None"
    and "\<not> setup_throws p \<Longrightarrow>
         snd (scrapePage ch p u) = [Goto u, Sleep 2000, Goto u, Sleep 2000, Goto u]"
  using navigate_exhausted[OF assms, of u] by (simp_all add: scrapePage_def)

lemma scrapeLoop_dropped:
  assumes "fst (scrapePage ch (pages b i) u) = None"
  shows "fst (scrapeLoop ch b i (JStr u # urls) sources) =
           (if (startsWith u (js ''http://'') \<or> startsWith u (js ''https://''))
               \<and> (newPage_throws (pages b i) \<or> close_throws (pages b i))
            then sources else fst (scrapeLoop ch b (Suc i) urls sources))"
  using assms by (auto simp: push_def split: prod.splits)

lemma scrapePage_no_model_call: "ModelCall c q \<notin> set (snd (scrapePage ch p u))"
  using scrapePage_trace[of ch p u] by auto

lemma scrapeLoop_no_model_call: "ModelCall c q \<notin> set (snd (scrapeLoop ch b i urls sources))"
proof (induction urls arbitrary: i sources)
  case Nil
  show ?case by simp
next
  case (Cons x urls)
  show ?case
  proof (cases x)
    case (JStr v)
    obtain r tr where r: "scrapePage ch (pages b i) v = (r, tr)"
      by (cases "scrapePage ch (pages b i) v")
    have tr: "ModelCall c q \<notin> set tr"
      using scrapePage_no_model_call[of c q ch "pages b i" v] r by simp
    show ?thesis
      using tr r JStr Cons.IH[of "Suc i" sources] Cons.IH[of "Suc i" "push sources r"]
      by (auto split: prod.splits)
  qed simp_all
qed

lemma scrapeWebsites_no_model_call: "ModelCall c q \<notin> set (snd (scrapeWebsites ch b urls))"
  using scrapeLoop_no_model_call[of c q ch b 0 urls "[]"]
  by (auto simp: scrapeWebsites_def split: option.splits prod.splits)

subsection \<open>The sample pages\<close>

lemma sample_schemes:
  "startsWith (js ''http://a'') (js ''http://'')"
  "startsWith (js ''https://b'') (js ''https://'')"
  "\<not> startsWith (js ''https://b'') (js ''http://'')"
  "\<not> startsWith (js ''not-a-url'') (js ''http://'')"
  "\<not> startsWith (js ''not-a-url'') (js ''https://'')"
  by (simp_all add: startsWith_def js_simps)

lemma sample_extractText: "extractText plain_cheerio (js ''hello  world'') = js ''hello world''"
  by (simp add: extractText_def plain_cheerio_def contentSelectors_def cleanedContent_def
      trim_def isWhiteSpace_def Let_def js_simps)

lemma sample_page_ok:
  "scrapePage plain_cheerio (page_ok (js ''hello  world'')) u =
     (Some \<lparr>url = u, content = js ''hello world'', title = Some u\<rparr>, [Goto u])"
proof -
  have t: "ch_text plain_cheerio (ch_remove plain_cheerio unwanted
             (ch_load plain_cheerio (js ''hello  world''))) (js ''title'') = []"
    by (simp add: plain_cheerio_def js_simps)
  have c: "js ''hello world'' \<noteq> []" by (simp add: js_simps)
  show ?thesis
    by (simp add: scrapePage_def page_ok_def numeral_3_eq_3 extractSource_def
        sample_extractText t c trim_def Let_def)
qed

lemma sample_page_down:
  "scrapePage ch page_down u = (None, [Goto u, Sleep 2000, Goto u, Sleep 2000, Goto u])"
  by (simp add: scrapePage_def page_down_def numeral_3_eq_3)

lemma sample_page_not_found: "scrapePage ch page_not_found u = (None, [Goto u])"
  by (simp add: scrapePage_def page_not_found_def numeral_3_eq_3)

lemma sample_page_flags:
  "\<not> newPage_throws (page_ok markup)" "\<not> close_throws (page_ok markup)"
  "\<not> newPage_throws page_down" "\<not> close_throws page_down"
  "\<not> newPage_throws page_not_found" "\<not> close_throws page_not_found"
  by (simp_all add: page_ok_def page_down_def page_not_found_def)

subsection \<open>Length of the extracted text\<close>

text \<open>The cut is at 8000 code units: a page of 9000 letters keeps its first 8000.\<close>

lemma cleanedContent_truncates: "cleanedContent (replicate 9000 0x61) = replicate 8000 0x61"
proof -
  have r: "replace_runs P r (replicate n (0x61 :: jschar)) = replicate n 0x61" if "\<not> P 0x61" for P r n
    using that by (induction n) simp_all
  show ?thesis
    by (simp add: cleanedContent_def r trim_def isWhiteSpace_def)
qed

text \<open>
  C6. For every markup, the text the extractor returns has at most 8000 characters, and so
  has the content of every record the collector returns.
\<close>

theorem extractor_length_bound:
  "length (extractText ch markup) \<le> 8000
   \<and> (fst (scrapeWebsites ch b urls) = Inr result
        \<longrightarrow> (\<forall>s \<in> set result. length (content s) \<le> 8000))"
proof -
  have "\<forall>s \<in> set (fst (scrapeLoop ch b 0 urls [])). length (content s) \<le> 8000"
    by (rule scrapeLoop_invariant) (simp_all add: extractSource_Some(2) length_extractText)
  then show ?thesis
    using scrapeWebsites_Inr[of ch b urls result] by (simp add: length_extractText)
qed

theorem extractor_length_bound_witness:
  "length (extractText plain_cheerio (js ''hello  world'')) \<le> 8000
   \<and> length (content \<lparr>url = js ''http://a'', content = js ''hello world'',
                        title = Some (js ''http://a'')\<rparr>) \<le> 8000"
proof -
  have h: "fst (scrapeWebsites plain_cheerio (browser_with (\<lambda>i. page_ok (js ''hello  world'')))
                  [JStr (js ''http://a'')])
           = Inr [\<lparr>url = js ''http://a'', content = js ''hello world'',
                    title = Some (js ''http://a'')\<rparr>]"
    by (simp add: scrapeWebsites_def browser_with_def sample_schemes sample_page_ok push_def
        sample_page_flags)
  show ?thesis
    using extractor_length_bound[of plain_cheerio "js ''hello  world''"
        "browser_with (\<lambda>i. page_ok (js ''hello  world''))" "[JStr (js ''http://a'')]"
        "[\<lparr>url = js ''http://a'', content = js ''hello world'',
           title = Some (js ''http://a'')\<rparr>]"] h
    by simp
qed

subsection \<open>Fields of the records\<close>

text \<open>
  C10. Every record the collector returns has a non-empty content and a non-empty title:
  a page whose cleaned text is empty gives no record, and a page whose trimmed
  \<open><title>\<close> text is empty gets its URL as title.
\<close>

theorem sources_have_content_and_title:
  "(fst (scrapeWebsites ch b urls) = Inr result
      \<longrightarrow> (\<forall>s \<in> set result. content s \<noteq> [] \<and> (\<exists>t. title s = Some t \<and> t \<noteq> [])))
   \<and> (extractText ch markup = [] \<longrightarrow> extractSource ch markup u = None)
   \<and> (extractText ch markup \<noteq> []
        \<and> trim (ch_text ch (ch_remove ch unwanted (ch_load ch markup)) (js ''title'')) = []
      \<longrightarrow> (\<exists>s. extractSource ch markup u = Some s \<and> title s = Some u))"
proof -
  have "\<forall>s \<in> set (fst (scrapeLoop ch b 0 urls [])).
          content s \<noteq> [] \<and> (\<exists>t. title s = Some t \<and> t \<noteq> [])"
  proof (rule scrapeLoop_invariant)
    fix v m s
    assume v: "startsWith v (js ''http://'') \<or> startsWith v (js ''https://'')"
      and s: "extractSource ch m v = Some s"
    from v have "v \<noteq> []" by (rule valid_scheme_nonempty)
    then show "content s \<noteq> [] \<and> (\<exists>t. title s = Some t \<and> t \<noteq> [])"
      using extractSource_Some(3,4)[OF s] by simp
  qed simp
  then have 1: "fst (scrapeWebsites ch b urls) = Inr result
      \<longrightarrow> (\<forall>s \<in> set result. content s \<noteq> [] \<and> (\<exists>t. title s = Some t \<and> t \<noteq> []))"
    using scrapeWebsites_Inr[of ch b urls result] by blast
  have 2: "extractText ch markup = [] \<longrightarrow> extractSource ch markup u = None"
    by (simp add: extractSource_def Let_def)
  have 3: "extractText ch markup \<noteq> []
        \<and> trim (ch_text ch (ch_remove ch unwanted (ch_load ch markup)) (js ''title'')) = []
      \<longrightarrow> (\<exists>s. extractSource ch markup u = Some s \<and> title s = Some u)"
    by (simp add: extractSource_def Let_def)
  from 1 2 3 show ?thesis by blast
qed

theorem sources_have_content_and_title_witness:
  "content \<lparr>url = js ''https://b'', content = js ''hello world'',
             title = Some (js ''https://b'')\<rparr> \<noteq> []
   \<and> (\<exists>t. title \<lparr>url = js ''https://b'', content = js ''hello world'',
                     title = Some (js ''https://b'')\<rparr> = Some t \<and> t \<noteq> [])
   \<and> extractSource plain_cheerio (js ''  '') (js ''https://b'') = None
   \<and> (\<exists>s. extractSource plain_cheerio (js ''hello  world'') (js ''https://b'') = Some s
           \<and> title s = Some (js ''https://b''))"
proof -
  have h: "fst (scrapeWebsites plain_cheerio (browser_with (\<lambda>i. page_ok (js ''hello  world'')))
                  [JStr (js ''https://b'')])
           = Inr [\<lparr>url = js ''https://b'', content = js ''hello world'',
                    title = Some (js ''https://b'')\<rparr>]"
    by (simp add: scrapeWebsites_def browser_with_def sample_schemes sample_page_ok push_def
        sample_page_flags)
  have e: "extractText plain_cheerio (js ''  '') = []"
    by (simp add: extractText_def plain_cheerio_def contentSelectors_def cleanedContent_def
        trim_def isWhiteSpace_def Let_def js_simps)
  have "js ''hello world'' \<noteq> []" by (simp add: js_simps)
  then have n1: "extractText plain_cheerio (js ''hello  world'') \<noteq> []"
    by (simp add: sample_extractText)
  have n2: "trim (ch_text plain_cheerio (ch_remove plain_cheerio unwanted
             (ch_load plain_cheerio (js ''hello  world''))) (js ''title'')) = []"
    by (simp add: plain_cheerio_def trim_def js_simps)
  let ?b = "browser_with (\<lambda>i. page_ok (js ''hello  world''))"
  let ?s = "\<lparr>url = js ''https://b'', content = js ''hello world'',
             title = Some (js ''https://b'')\<rparr>"
  note w1 = sources_have_content_and_title[of plain_cheerio ?b "[JStr (js ''https://b'')]" "[?s]"
      "js ''  ''" "js ''https://b''"]
  note w2 = sources_have_content_and_title[of plain_cheerio ?b "[JStr (js ''https://b'')]" "[?s]"
      "js ''hello  world''" "js ''https://b''"]
  have 1: "content ?s \<noteq> [] \<and> (\<exists>t. title ?s = Some t \<and> t \<noteq> [])"
    using w1 h by simp
  have 2: "extractSource plain_cheerio (js ''  '') (js ''https://b'') = None"
    using w1 e by blast
  have 3: "\<exists>s. extractSource plain_cheerio (js ''hello  world'') (js ''https://b'') = Some s
           \<and> title s = Some (js ''https://b'')"
    using w2 n1 n2 by blast
  from 1 2 3 show ?thesis by blast
qed

subsection \<open>Records per URL\<close>

text \<open>
  C3, as the claim states it, fails: a URL that appears twice in the list is fetched twice
  and gives two records.
\<close>

theorem scrape_duplicate_url_counterexample:
  "fst (scrapeWebsites plain_cheerio (browser_with (\<lambda>i. page_ok (js ''hello  world'')))
          [JStr (js ''http://a''), JStr (js ''http://a'')])
   = Inr [\<lparr>url = js ''http://a'', content = js ''hello world'', title = Some (js ''http://a'')\<rparr>,
          \<lparr>url = js ''http://a'', content = js ''hello world'', title = Some (js ''http://a'')\<rparr>]"
  by (simp add: scrapeWebsites_def browser_with_def sample_schemes sample_page_ok push_def
      sample_page_flags)

text \<open>
  C3, amended. For every list of URL strings, each entry of the list gives at most one
  record: the result has no more records of a URL than the list has entries of it, and no
  more records than the list has entries.
\<close>

theorem scrape_one_source_per_entry:
  assumes "fst (scrapeWebsites ch b (map JStr us)) = Inr result"
  shows "length (filter (\<lambda>s. url s = u) result) \<le> count_list us u
         \<and> length result \<le> length us"
proof -
  have s: "result = fst (scrapeLoop ch b 0 (map JStr us) [])"
    using assms by (rule scrapeWebsites_Inr)
  have "length (filter (\<lambda>s. url s = u) result) \<le> count_list (map JStr us) (JStr u)"
    using scrapeLoop_count[of u ch b 0 "map JStr us" "[]"] s by simp
  moreover have "length result \<le> length us"
    using scrapeLoop_length[of ch b 0 "map JStr us" "[]"] s by simp
  ultimately show ?thesis by (simp add: count_list_map_JStr)
qed

theorem scrape_one_source_per_entry_witness:
  "length (filter (\<lambda>s. url s = js ''http://a'')
      [\<lparr>url = js ''http://a'', content = js ''hello world'', title = Some (js ''http://a'')\<rparr>])
     \<le> count_list [js ''http://a'', js ''not-a-url'', js ''https://b''] (js ''http://a'')
   \<and> length [\<lparr>url = js ''http://a'', content = js ''hello world'', title = Some (js ''http://a'')\<rparr>]
     \<le> length [js ''http://a'', js ''not-a-url'', js ''https://b'']"
proof -
  have h: "fst (scrapeWebsites plain_cheerio
                  (browser_with (\<lambda>i. if i = 0 then page_ok (js ''hello  world'') else page_down))
                  (map JStr [js ''http://a'', js ''not-a-url'', js ''https://b'']))
           = Inr [\<lparr>url = js ''http://a'', content = js ''hello world'',
                    title = Some (js ''http://a'')\<rparr>]"
    by (simp add: scrapeWebsites_def browser_with_def sample_schemes sample_page_ok
        sample_page_down push_def sample_page_flags)
  show ?thesis
    using scrape_one_source_per_entry[OF h] .
qed

subsection \<open>Retries\<close>

text \<open>
  C7. For every URL that is fetched, \<open>page.goto\<close> is called at most three times, with a
  pause of 2000 milliseconds between two calls; a response with a non-success status gives
  no record; when the three calls throw, the page gives no record; a page that gives no
  record leaves the list of records as it was and the loop goes on with the next URL
  (it stops, with the records so far, only when opening or closing the page throws); and
  whatever the pages do, the collector returns a list when the browser launches and closes.
\<close>

theorem page_fetch_retries:
  "snd (scrapePage ch p u) \<in>
     {[], [Goto u], [Goto u, Sleep 2000, Goto u], [Goto u, Sleep 2000, Goto u, Sleep 2000, Goto u]}
   \<and> (fst (navigate (goto p) u 3 0) = Some (Some False) \<longrightarrow> fst (scrapePage ch p u) = None)
   \<and> (goto p 0 = Throws \<and> goto p 1 = Throws \<and> goto p 2 = Throws \<longrightarrow>
        fst (scrapePage ch p u) = None
        \<and> (\<not> setup_throws p \<longrightarrow>
             snd (scrapePage ch p u) = [Goto u, Sleep 2000, Goto u, Sleep 2000, Goto u]))
   \<and> (fst (scrapePage ch (pages b i) u) = None \<longrightarrow>
        fst (scrapeLoop ch b i (JStr u # urls) sources) =
           (if (startsWith u (js ''http://'') \<or> startsWith u (js ''https://''))
               \<and> (newPage_throws (pages b i) \<or> close_throws (pages b i))
            then sources else fst (scrapeLoop ch b (Suc i) urls sources)))
   \<and> (launch_throws b = None \<and> browser_close_throws b = None \<longrightarrow>
        fst (scrapeWebsites ch b (JStr u # urls)) = Inr (fst (scrapeLoop ch b 0 (JStr u # urls) [])))"
  using scrapePage_trace[of ch p u] scrapePage_not_ok[of p u ch]
    scrapePage_exhausted[of p ch u] scrapeLoop_dropped[of ch b i u urls sources]
    scrapeWebsites_returns[of b ch "JStr u # urls"]
  by blast

theorem page_fetch_retries_witness:
  "scrapePage plain_cheerio page_down (js ''http://a'')
     = (None, [Goto (js ''http://a''), Sleep 2000, Goto (js ''http://a''), Sleep 2000,
               Goto (js ''http://a'')])
   \<and> fst (scrapePage plain_cheerio page_not_found (js ''http://a'')) = None
   \<and> fst (scrapeWebsites plain_cheerio
            (browser_with (\<lambda>i. if i = 0 then page_down else page_ok (js ''hello  world'')))
            [JStr (js ''http://a''), JStr (js ''https://b'')])
     = Inr [\<lparr>url = js ''https://b'', content = js ''hello world'', title = Some (js ''https://b'')\<rparr>]"
proof -
  let ?b = "browser_with (\<lambda>i. if i = 0 then page_down else page_ok (js ''hello  world''))"
  have d: "goto page_down 0 = Throws \<and> goto page_down 1 = Throws \<and> goto page_down 2 = Throws"
    "\<not> setup_throws page_down"
    by (simp_all add: page_down_def)
  have n: "fst (navigate (goto page_not_found) (js ''http://a'') 3 0) = Some (Some False)"
    by (simp add: page_not_found_def numeral_3_eq_3)
  have p0: "pages ?b 0 = page_down" by (simp add: browser_with_def)
  have l: "launch_throws ?b = None \<and> browser_close_throws ?b = None"
    by (simp add: browser_with_def)
  have c: "\<not> newPage_throws (pages ?b 0) \<and> \<not> close_throws (pages ?b 0)"
    by (simp add: browser_with_def sample_page_flags)
  have r: "fst (scrapeLoop plain_cheerio ?b (Suc 0) [JStr (js ''https://b'')] [])
           = [\<lparr>url = js ''https://b'', content = js ''hello world'', title = Some (js ''https://b'')\<rparr>]"
    by (simp add: browser_with_def sample_schemes sample_page_ok push_def sample_page_flags)
  note w1 = page_fetch_retries[of plain_cheerio page_down "js ''http://a''" ?b 0
      "[JStr (js ''https://b'')]" "[]"]
  note w2 = page_fetch_retries[of plain_cheerio page_not_found "js ''http://a''" ?b 0
      "[JStr (js ''https://b'')]" "[]"]
  have 1: "scrapePage plain_cheerio page_down (js ''http://a'')
     = (None, [Goto (js ''http://a''), Sleep 2000, Goto (js ''http://a''), Sleep 2000,
               Goto (js ''http://a'')])"
    using w1 d by (simp add: prod_eq_iff)
  have 2: "fst (scrapePage plain_cheerio page_not_found (js ''http://a'')) = None"
    using w2 n by blast
  have 3: "fst (scrapeWebsites plain_cheerio ?b [JStr (js ''http://a''), JStr (js ''https://b'')])
     = Inr [\<lparr>url = js ''https://b'', content = js ''hello world'', title = Some (js ''https://b'')\<rparr>]"
    using w1 d l c r by (simp add: p0)
  from 1 2 3 show ?thesis by blast
qed


section \<open>Properties of the chat handler\<close>

text \<open>
  C5. For the empty list of sources and any query, \<open>generateAnswer\<close> returns the fixed
  answer that no content could be extracted, with an empty list of sources, and makes no
  request to the model.
\<close>

theorem generateAnswer_no_sources:
  "generateAnswer groq query [] =
     (Inr (js ''I couldn't extract any content from the provided URLs. Please check the URLs and try again.'', []),
      [])"
  by (simp add: generateAnswer_def)

lemma getGroqClient_configured:
  "client \<or> truthy_string key \<Longrightarrow> getGroqClient key client = Inr True"
  by (auto simp: getGroqClient_def)

lemma destructure_not_null:
  "data \<noteq> JNull \<Longrightarrow> destructure data = Inr (property data (js ''query''), property data (js ''urls''))"
  by (cases data) simp_all

lemma isArray_iff: "isArray v \<longleftrightarrow> (\<exists>us. v = Some (JArr us))"
  by (cases v rule: isArray.cases) simp_all

text \<open>What the handler does with a payload that passes the validation.\<close>

lemma POST_validated:
  assumes "client \<or> truthy_string key" and "data \<noteq> JNull"
    and "truthy (property data (js ''query''))"
    and "property data (js ''urls'') = Some (JArr us)"
  shows "POST ch b groq key client (Inr data) =
     (case scrapeWebsites ch b us of
        (Inl error, tr) \<Rightarrow> (\<lparr>status = 500, body = FailureBody error\<rparr>, True, tr)
      | (Inr sources, tr) \<Rightarrow>
          if length sources = 0
          then (\<lparr>status = 404, body = ErrorBody (js ''Could not scrape any content from the provided URLs. Please check the URLs and try again.'')\<rparr>,
                True, tr)
          else
            (case generateAnswer groq (the (property data (js ''query''))) sources of
               (Inl error, tr') \<Rightarrow> (\<lparr>status = 500, body = FailureBody error\<rparr>, True, tr @ tr')
             | (Inr (answer, used), tr') \<Rightarrow>
                 (\<lparr>status = 200, body = AnswerBody answer used\<rparr>, True, tr @ tr')))"
  using assms
  by (simp add: POST_def getGroqClient_configured destructure_not_null)

lemma POST_invalid:
  assumes "client \<or> truthy_string key" and "data \<noteq> JNull"
    and "\<not> truthy (property data (js ''query'')) \<or> \<not> isArray (property data (js ''urls''))"
  shows "POST ch b groq key client (Inr data) =
     (\<lparr>status = 400, body = ErrorBody (js ''Invalid request. Provide a query and URLs.'')\<rparr>, True, [])"
  using assms
  by (auto simp: POST_def getGroqClient_configured destructure_not_null)

lemma POST_validated_status:
  assumes "client \<or> truthy_string key" and "data \<noteq> JNull"
    and "truthy (property data (js ''query''))"
    and "property data (js ''urls'') = Some (JArr us)"
  shows "status (fst (POST ch b groq key client (Inr data))) \<noteq> 400"
    and "\<exists>tr'. snd (snd (POST ch b groq key client (Inr data))) = snd (scrapeWebsites ch b us) @ tr'"
  unfolding POST_validated[OF assms]
  by (auto split: prod.splits sum.splits)

lemma sample_request:
  "chat_request query urls \<noteq> Inr JNull"
  "chat_request query urls = Inr (JObj [(js ''query'', query), (js ''urls'', JArr urls)])"
  "property (JObj [(js ''query'', query), (js ''urls'', JArr urls)]) (js ''query'') = Some query"
  "property (JObj [(js ''query'', query), (js ''urls'', JArr urls)]) (js ''urls'') = Some (JArr urls)"
  "js ''query'' \<noteq> js ''urls''" "js ''urls'' \<noteq> js ''query''"
  by (simp_all add: chat_request_def js_simps)

lemma sample_key: "js ''key'' \<noteq> []" "truthy_string (Some (js ''key''))"
  by (simp_all add: js_simps)

subsection \<open>Validation\<close>

text \<open>
  C4, as the claim states it, fails: a payload whose query is the number 42, not a string,
  passes the validation; the handler goes on to scraping and answers 404 here, not 400.
\<close>

theorem chat_validation_counterexample:
  "POST plain_cheerio (browser_with (\<lambda>i. page_down)) groq_fixed (Some (js ''key'')) False
     (chat_request (JNum 42) [JStr (js ''not-a-url'')])
   = (\<lparr>status = 404, body = ErrorBody (js ''Could not scrape any content from the provided URLs. Please check the URLs and try again.'')\<rparr>,
      True, [])"
  by (simp add: POST_def getGroqClient_def sample_key sample_request scrapeWebsites_def
      browser_with_def sample_schemes)

text \<open>And a payload whose query is the empty string is answered with 400.\<close>

lemma chat_validation_empty_query:
  "POST plain_cheerio (browser_with (\<lambda>i. page_down)) groq_fixed (Some (js ''key'')) False
     (chat_request (JStr []) [JStr (js ''http://a'')])
   = (\<lparr>status = 400, body = ErrorBody (js ''Invalid request. Provide a query and URLs.'')\<rparr>,
      True, [])"
  by (simp add: POST_def getGroqClient_def sample_key sample_request)

text \<open>
  C4, amended. When the model client is configured and the body is JSON other than
  \<open>null\<close>, the handler answers 400 exactly when \<open>query\<close> is falsy (absent, \<open>null\<close>, \<open>false\<close>,
  \<open>0\<close> or the empty string) or \<open>urls\<close> is not an array; a payload with a truthy query and an
  array of URLs goes on to scraping.
\<close>

theorem chat_validation:
  assumes "client \<or> truthy_string key" and "request_json = Inr data" and "data \<noteq> JNull"
  shows "(status (fst (POST ch b groq key client request_json)) = 400
            \<longleftrightarrow> \<not> truthy (property data (js ''query'')) \<or> \<not> isArray (property data (js ''urls'')))
    \<and> (\<forall>us. truthy (property data (js ''query'')) \<and> property data (js ''urls'') = Some (JArr us)
          \<longrightarrow> (\<exists>tr'. snd (snd (POST ch b groq key client request_json))
                          = snd (scrapeWebsites ch b us) @ tr'))"
proof (cases "\<not> truthy (property data (js ''query'')) \<or> \<not> isArray (property data (js ''urls''))")
  case True
  have "POST ch b groq key client (Inr data) =
     (\<lparr>status = 400, body = ErrorBody (js ''Invalid request. Provide a query and URLs.'')\<rparr>, True, [])"
    using assms(1,3) True by (rule POST_invalid)
  then show ?thesis using True assms(2) by auto
next
  case False
  then obtain us where us: "property data (js ''urls'') = Some (JArr us)"
    by (auto simp: isArray_iff)
  from False have q: "truthy (property data (js ''query''))" by simp
  show ?thesis
    using POST_validated_status[OF assms(1,3) q us, of ch b groq] False us assms(2) by auto
qed

theorem chat_validation_witness:
  "status (fst (POST plain_cheerio (browser_with (\<lambda>i. page_down)) groq_fixed (Some (js ''key'')) False
     (chat_request (JBool False) [JStr (js ''http://a'')]))) = 400
   \<and> status (fst (POST plain_cheerio (browser_with (\<lambda>i. page_down)) groq_fixed (Some (js ''key'')) False
     (chat_request (JStr (js ''What?'')) [JStr (js ''http://a'')]))) \<noteq> 400
   \<and> (\<exists>tr'. snd (snd (POST plain_cheerio (browser_with (\<lambda>i. page_down)) groq_fixed
                        (Some (js ''key'')) False
                        (chat_request (JStr (js ''What?'')) [JStr (js ''http://a'')])))
              = snd (scrapeWebsites plain_cheerio (browser_with (\<lambda>i. page_down))
                       [JStr (js ''http://a'')]) @ tr')"
proof -
  let ?d1 = "JObj [(js ''query'', JBool False), (js ''urls'', JArr [JStr (js ''http://a'')])]"
  let ?d2 = "JObj [(js ''query'', JStr (js ''What?'')), (js ''urls'', JArr [JStr (js ''http://a'')])]"
  have k: "False \<or> truthy_string (Some (js ''key''))" by (simp add: sample_key)
  have r1: "chat_request (JBool False) [JStr (js ''http://a'')] = Inr ?d1"
    and r2: "chat_request (JStr (js ''What?'')) [JStr (js ''http://a'')] = Inr ?d2"
    by (simp_all add: sample_request)
  have n1: "?d1 \<noteq> JNull" and n2: "?d2 \<noteq> JNull" by simp_all
  have q: "js ''What?'' \<noteq> []" by (simp add: js_simps)
  note w1 = chat_validation[OF k r1 n1, of plain_cheerio "browser_with (\<lambda>i. page_down)" groq_fixed]
  note w2 = chat_validation[OF k r2 n2, of plain_cheerio "browser_with (\<lambda>i. page_down)" groq_fixed]
  have 1: "status (fst (POST plain_cheerio (browser_with (\<lambda>i. page_down)) groq_fixed
             (Some (js ''key'')) False (chat_request (JBool False) [JStr (js ''http://a'')]))) = 400"
    using w1 by (simp add: sample_request)
  have 2: "status (fst (POST plain_cheerio (browser_with (\<lambda>i. page_down)) groq_fixed
             (Some (js ''key'')) False
             (chat_request (JStr (js ''What?'')) [JStr (js ''http://a'')]))) \<noteq> 400"
    using w2 q by (simp add: sample_request)
  have 3: "\<exists>tr'. snd (snd (POST plain_cheerio (browser_with (\<lambda>i. page_down)) groq_fixed
                        (Some (js ''key'')) False
                        (chat_request (JStr (js ''What?'')) [JStr (js ''http://a'')])))
              = snd (scrapeWebsites plain_cheerio (browser_with (\<lambda>i. page_down))
                       [JStr (js ''http://a'')]) @ tr'"
    using w2 q by (simp add: sample_request)
  from 1 2 3 show ?thesis by blast
qed

subsection \<open>No sources\<close>

text \<open>
  C1. For every chat request that reaches the collector (the model client is configured,
  the body has a truthy query and an array of URLs) and whose browser launches and
  closes: when scraping gives no source, and in particular when every entry of the list is
  a string that starts with neither \<open>http://\<close> nor \<open>https://\<close>, the handler answers 404
  with a message that explains it, and makes no request to the model.
\<close>

theorem chat_no_sources:
  assumes "client \<or> truthy_string key" and "request_json = Inr data" and "data \<noteq> JNull"
    and "truthy (property data (js ''query''))"
    and "property data (js ''urls'') = Some (JArr us)"
    and "launch_throws b = None" and "browser_close_throws b = None"
    and "fst (scrapeLoop ch b 0 us []) = []
         \<or> (\<forall>v \<in> set us. \<exists>u. v = JStr u \<and> \<not> startsWith u (js ''http://'')
                                         \<and> \<not> startsWith u (js ''https://''))"
  shows "fst (POST ch b groq key client request_json) =
           \<lparr>status = 404, body = ErrorBody (js ''Could not scrape any content from the provided URLs. Please check the URLs and try again.'')\<rparr>
         \<and> (\<forall>ctx query. ModelCall ctx query \<notin> set (snd (snd (POST ch b groq key client request_json))))"
proof -
  have empty: "fst (scrapeLoop ch b 0 us []) = []"
    using assms(8) scrapeLoop_invalid_only[of us ch b 0 "[]"] by auto
  have sw: "fst (scrapeWebsites ch b us) = Inr []"
    using scrapeWebsites_returns[OF assms(6,7), of ch us] empty by simp
  have "POST ch b groq key client (Inr data) =
          (\<lparr>status = 404, body = ErrorBody (js ''Could not scrape any content from the provided URLs. Please check the URLs and try again.'')\<rparr>,
           True, snd (scrapeWebsites ch b us))"
    unfolding POST_validated[OF assms(1,3,4,5)] using sw
    by (cases "scrapeWebsites ch b us") simp
  then show ?thesis
    using assms(2) scrapeWebsites_no_model_call[of _ _ ch b us] by simp
qed

theorem chat_no_sources_witness:
  "fst (POST plain_cheerio (browser_with (\<lambda>i. page_down)) groq_fixed (Some (js ''key'')) False
          (chat_request (JStr (js ''What?'')) [JStr (js ''not-a-url'')]))
     = \<lparr>status = 404, body = ErrorBody (js ''Could not scrape any content from the provided URLs. Please check the URLs and try again.'')\<rparr>
   \<and> (\<forall>ctx query. ModelCall ctx query \<notin> set (snd (snd
         (POST plain_cheerio (browser_with (\<lambda>i. page_down)) groq_fixed (Some (js ''key'')) False
            (chat_request (JStr (js ''What?'')) [JStr (js ''not-a-url'')])))))"
proof -
  let ?d = "JObj [(js ''query'', JStr (js ''What?'')), (js ''urls'', JArr [JStr (js ''not-a-url'')])]"
  let ?b = "browser_with (\<lambda>i. page_down)"
  have 1: "False \<or> truthy_string (Some (js ''key''))" by (simp add: sample_key)
  have 2: "chat_request (JStr (js ''What?'')) [JStr (js ''not-a-url'')] = Inr ?d"
    by (simp add: sample_request)
  have 3: "?d \<noteq> JNull" by simp
  have 4: "truthy (property ?d (js ''query''))" by (simp add: sample_request js_simps)
  have 5: "property ?d (js ''urls'') = Some (JArr [JStr (js ''not-a-url'')])"
    by (simp add: sample_request)
  have 6: "launch_throws ?b = None" and 7: "browser_close_throws ?b = None"
    by (simp_all add: browser_with_def)
  have 8: "fst (scrapeLoop plain_cheerio ?b 0 [JStr (js ''not-a-url'')] []) = []
         \<or> (\<forall>v \<in> set [JStr (js ''not-a-url'')]. \<exists>u. v = JStr u \<and> \<not> startsWith u (js ''http://'')
                                         \<and> \<not> startsWith u (js ''https://''))"
    by (simp add: sample_schemes)
  show ?thesis
    using chat_no_sources[OF 1 2 3 4 5 6 7 8, of groq_fixed] .
qed

text \<open>
  When every page of a request fails after its three attempts, the answer is again 404:
  no error of a page reaches the client.
\<close>

lemma chat_all_pages_down:
  "fst (POST plain_cheerio (browser_with (\<lambda>i. page_down)) groq_fixed (Some (js ''key'')) False
          (chat_request (JStr (js ''What?'')) [JStr (js ''http://a''), JStr (js ''https://b'')]))
     = \<lparr>status = 404, body = ErrorBody (js ''Could not scrape any content from the provided URLs. Please check the URLs and try again.'')\<rparr>"
proof -
  have q: "js ''What?'' \<noteq> []" by (simp add: js_simps)
  show ?thesis
    by (simp add: POST_def getGroqClient_def sample_key sample_request q scrapeWebsites_def
        browser_with_def sample_schemes sample_page_down push_def sample_page_flags)
qed


section \<open>Properties of the share handlers\<close>

lemma redis_get_set:
  "redis_get parse (redis_set store key text ex now) key now' =
     (if now' < now + ex then Some (case parse text of Some v \<Rightarrow> v | None \<Rightarrow> JStr text) else None)"
  by (simp add: redis_get_def redis_set_def)

lemma sample_text_not_object: "js ''[object Object]'' \<noteq> sample_text"
  by (simp add: sample_text_def js_def)

text \<open>
  C2, which the code fails. For every conversation with a non-empty id that
  \<open>POST /api/share\<close> stores, a \<open>GET /api/share\<close> with the same id before the 7 days
  (604800 seconds) are over answers 500 and not, as C2 says, the conversation that was
  stored: the client of the store has read the stored text back to an object already, and
  \<open>JSON.parse\<close> of that object, so of the text \<open>[object Object]\<close>, throws.
\<close>

theorem share_get_after_post_fails:
  assumes "parse (stringify c) = Some (JObj kvs)" and "parse (js ''[object Object]'') = None"
    and "id' c \<noteq> []" and "now' < now + 60 * 60 * 24 * 7"
  shows "fst (share_POST stringify False now store (Inr (Some c)))
           = \<lparr>share_status = 200, share_body = PostSuccess (id' c)\<rparr>
    \<and> share_GET parse num False now' (snd (share_POST stringify False now store (Inr (Some c))))
          (Some (id' c))
           = \<lparr>share_status = 500, share_body = GetError (js ''Failed to retrieve conversation'')\<rparr>"
  using assms by (simp add: share_POST_def share_GET_def redis_get_set Let_def)

theorem share_get_after_post_fails_witness:
  "fst (share_POST sample_stringify False 1000 Map.empty (Inr (Some sample_conversation)))
           = \<lparr>share_status = 200, share_body = PostSuccess (id' sample_conversation)\<rparr>
    \<and> share_GET sample_parse sample_num False 1001
         (snd (share_POST sample_stringify False 1000 Map.empty (Inr (Some sample_conversation))))
          (Some (id' sample_conversation))
           = \<lparr>share_status = 500, share_body = GetError (js ''Failed to retrieve conversation'')\<rparr>"
proof -
  have 1: "sample_parse (sample_stringify sample_conversation)
             = Some (JObj [(js ''id'', JStr (js ''k3x9q'')),
           (js ''messages'', JArr
              [JObj [(js ''role'', JStr (js ''user'')), (js ''content'', JStr (js ''Hi''))],
               JObj [(js ''role'', JStr (js ''ai'')), (js ''content'', JStr (js ''Hello'')),
                     (js ''sources'', JArr
                        [JObj [(js ''url'', JStr (js ''http://a'')),
                               (js ''content'', JStr (js ''hello world'')),
                               (js ''title'', JStr (js ''A''))]])]]),
           (js ''urls'', JStr (js ''http://a''))])"
    by (simp add: sample_parse_def sample_stringify_def sample_value_def)
  have 2: "sample_parse (js ''[object Object]'') = None"
    by (simp add: sample_parse_def sample_text_not_object)
  have 3: "id' sample_conversation \<noteq> []"
    by (simp add: sample_conversation_def js_def)
  have 4: "(1001::int) < 1000 + 60 * 60 * 24 * 7" by simp
  show ?thesis
    using share_get_after_post_fails[where parse = sample_parse and stringify = sample_stringify
        and c = sample_conversation and now' = 1001 and now = 1000 and store = Map.empty
        and num = sample_num, OF 1 2 3 4] .
qed

text \<open>
  A conversation whose id is the empty string is stored by \<open>POST\<close>, which answers with
  success, and \<open>GET\<close> with the same id answers 400.
\<close>

lemma share_empty_id:
  "fst (share_POST stringify False now store (Inr (Some (c\<lparr>id' := []\<rparr>))))
     = \<lparr>share_status = 200, share_body = PostSuccess []\<rparr>
   \<and> share_GET parse num False now'
        (snd (share_POST stringify False now store (Inr (Some (c\<lparr>id' := []\<rparr>))))) (Some [])
     = \<lparr>share_status = 400, share_body = GetError (js ''Conversation ID is required'')\<rparr>"
  by (simp add: share_POST_def share_GET_def Let_def)

text \<open>From the 7 days on, the conversation is gone.\<close>

lemma share_expired:
  assumes "id' c \<noteq> []" and "now + 60 * 60 * 24 * 7 \<le> now'"
  shows "share_GET parse num False now' (snd (share_POST stringify False now store (Inr (Some c))))
          (Some (id' c))
           = \<lparr>share_status = 404, share_body = GetError (js ''Conversation not found'')\<rparr>"
  using assms by (simp add: share_POST_def share_GET_def redis_get_set Let_def)

end
